theory Spec2Isabelle
  imports Main "HOL-Library.Sublist"
begin

section \<open>The remote store\<close>

text \<open>
  The credit ledger (\<open>credits-manager\<close>) and the media pipeline (\<open>video-processor\<close>) talk to
  a hosted relational store through a query client. The store is modelled as a record of its
  three tables plus the sequence of calls issued against it, so that the order of the calls
  is part of the state.

  Credits are integers (the columns are integer columns); JavaScript's \<open>number\<close> is read as
  an unbounded \<open>int\<close>. A nullable column is an \<open>option\<close>.
\<close>

datatype transaction_type = Usage | Refund | Purchase | Bonus

record profile =
  credits :: "int option"
  total_credits_spent :: "int option"
  total_videos_created :: "int option"
  updated_at :: "string option"
  email :: "string option"
  plan_type :: "string option"

record credit_transaction =
  user_id :: string
  transaction_type :: transaction_type
  amount :: int
  description :: string
  task_id :: "string option"
  video_id :: "string option"
  created_at :: string
  check_in_id :: "string option"
  referral_id :: "string option"
  free_credits_type :: "string option"

record video_row =
  v_id :: string
  v_user_id :: "string option"
  v_task_id :: string
  v_title :: string
  v_description :: string
  v_prompt :: string
  v_triggers :: "string list"
  v_category :: string
  v_status :: string
  v_credit_cost :: int
  v_duration :: string
  v_resolution :: string
  v_aspect_ratio :: string
  v_preview_url :: string
  v_download_url :: string
  v_thumbnail_url :: string
  v_file_size :: nat
  v_provider :: string
  v_generation_completed_at :: string
  v_created_at :: string
  v_updated_at :: string

datatype store_call =
    Select_user_profiles string
  | Update_user_profiles string
  | Insert_credit_transactions
  | Update_credit_transactions
  | Insert_videos

record db =
  user_profiles :: "string \<rightharpoonup> profile"
  credit_transactions :: "credit_transaction list"
  videos :: "video_row list"
  calls :: "store_call list"

text \<open>
  What the outside world does during one ledger operation. \<open>createServiceClient\<close> is not
  part of the sources at hand; it either returns a client or throws. The client resolves
  every query to a pair of data and error and never rejects, so the only way into the
  \<open>catch\<close> blocks of the ledger is a throwing \<open>createServiceClient\<close>. A query that the
  store answers with an error has changed nothing.
\<close>

datatype thrown = ErrorObject string | OtherValue

datatype select_reply = SelectAnswers | SelectError | SelectNull

record store_env =
  client_throws :: "thrown option"
  select_reply :: select_reply
  update_fails :: bool
  insert_fails :: bool

datatype 'a single = Row 'a | NoRow | QueryError

text \<open>\<open>error instanceof Error ? error.message : 'Unknown error'\<close>\<close>

fun error_message :: "thrown \<Rightarrow> string" where
  "error_message (ErrorObject m) = m"
| "error_message OtherValue = ''Unknown error''"

text \<open>
  JavaScript reads a \<open>null\<close> number as \<open>0\<close>, under \<open>x || 0\<close> as well as under \<open><\<close>,
  \<open>+\<close> and \<open>-\<close>.
\<close>

fun num :: "int option \<Rightarrow> int" where
  "num None = 0"
| "num (Some n) = n"

text \<open>Truthiness of an optional string: \<open>undefined\<close> and the empty string are falsy.\<close>

fun truthy :: "string option \<Rightarrow> bool" where
  "truthy None = False"
| "truthy (Some s) = (s \<noteq> [])"

text \<open>\<open>x || null\<close> and the conditional spread \<open>...(x && {key: x})\<close>\<close>

definition or_null :: "string option \<Rightarrow> string option" where
  "or_null x = (if truthy x then x else None)"

text \<open>\<open>x || d\<close> for a string default\<close>

definition or_else :: "string option \<Rightarrow> string \<Rightarrow> string" where
  "or_else x d = (case x of None \<Rightarrow> d | Some s \<Rightarrow> if s = [] then d else s)"

text \<open>
  \<open>.from('user_profiles').select(...).eq('id', userId).single()\<close>: \<open>id\<close> is the primary key,
  so there is at most one row; \<open>single()\<close> answers with an error when there is none.
\<close>

definition select_profile :: "store_env \<Rightarrow> db \<Rightarrow> string \<Rightarrow> profile single \<times> db" where
  "select_profile env d userId =
     (let d' = d\<lparr>calls := calls d @ [Select_user_profiles userId]\<rparr> in
      case select_reply env of
        SelectError \<Rightarrow> (QueryError, d')
      | SelectNull \<Rightarrow> (NoRow, d')
      | SelectAnswers \<Rightarrow>
          (case user_profiles d userId of
             None \<Rightarrow> (QueryError, d')
           | Some p \<Rightarrow> (Row p, d')))"

text \<open>
  \<open>.from('user_profiles').update(...).eq('id', userId)\<close>: the first component is the error
  flag of the reply. An accepted update writes the columns of its payload and nothing else;
  triggers that a deployed store may run on top of it are not part of the code.
\<close>

definition update_profile ::
  "store_env \<Rightarrow> db \<Rightarrow> string \<Rightarrow> (profile \<Rightarrow> profile) \<Rightarrow> bool \<times> db" where
  "update_profile env d userId f =
     (let d' = d\<lparr>calls := calls d @ [Update_user_profiles userId]\<rparr> in
      if update_fails env then (True, d')
      else (False,
            case user_profiles d' userId of
              None \<Rightarrow> d'
            | Some p \<Rightarrow> d'\<lparr>user_profiles := (user_profiles d')(userId \<mapsto> f p)\<rparr>))"

text \<open>\<open>.from('credit_transactions').insert(row)\<close>: rows are kept oldest first.\<close>

definition insert_transaction :: "store_env \<Rightarrow> db \<Rightarrow> credit_transaction \<Rightarrow> bool \<times> db" where
  "insert_transaction env d row =
     (let d' = d\<lparr>calls := calls d @ [Insert_credit_transactions]\<rparr> in
      if insert_fails env then (True, d')
      else (False, d'\<lparr>credit_transactions := credit_transactions d' @ [row]\<rparr>))"

section \<open>The credit ledger\<close>

record result =
  success :: bool
  error :: "string option"

record deduct_result = result +
  remainingCredits :: "int option"

record credit_result = result +
  newCredits :: "int option"

record user_credits =
  uc_credits :: int
  uc_error :: "string option"

definition deduct_failed :: "string \<Rightarrow> deduct_result" where
  "deduct_failed msg = \<lparr>success = False, error = Some msg, remainingCredits = None\<rparr>"

definition credit_failed :: "string \<Rightarrow> credit_result" where
  "credit_failed msg = \<lparr>success = False, error = Some msg, newCredits = None\<rparr>"

text \<open>\<open>taskId ? `${description} - Task: ${taskId}` : description\<close>\<close>

definition task_description :: "string \<Rightarrow> string option \<Rightarrow> string" where
  "task_description descr taskId =
     (case taskId of
        None \<Rightarrow> descr
      | Some t \<Rightarrow> if t = [] then descr else descr @ '' - Task: '' @ t)"

text \<open>
  \<open>deductCredits(userId, amount, description, taskId?)\<close>. \<open>now\<close> is the value of
  \<open>new Date().toISOString()\<close> at the insert.
\<close>

definition deductCredits ::
  "store_env \<Rightarrow> string \<Rightarrow> db \<Rightarrow> string \<Rightarrow> int \<Rightarrow> string \<Rightarrow> string option
     \<Rightarrow> deduct_result \<times> db" where
  "deductCredits env now d userId amnt descr taskId =
     (case client_throws env of
        Some e \<Rightarrow> (deduct_failed (error_message e), d)
      | None \<Rightarrow>
         (case select_profile env d userId of
            (QueryError, d1) \<Rightarrow> (deduct_failed ''Failed to fetch user profile'', d1)
          | (NoRow, d1) \<Rightarrow> (deduct_failed ''User profile not found'', d1)
          | (Row p, d1) \<Rightarrow>
              if num (credits p) < amnt then (deduct_failed ''Insufficient credits'', d1)
              else
                let newCredits = num (credits p) - amnt in
                (case update_profile env d1 userId
                        (\<lambda>r. r\<lparr>credits := Some newCredits,
                                total_credits_spent := Some (num (total_credits_spent p) + amnt),
                                total_videos_created := Some (num (total_videos_created p) + 1)\<rparr>) of
                   (True, d2) \<Rightarrow> (deduct_failed ''Failed to update credits'', d2)
                 | (False, d2) \<Rightarrow>
                     (case insert_transaction env d2
                             \<lparr>user_id = userId, transaction_type = Usage, amount = - amnt,
                              description = task_description descr taskId,
                              task_id = taskId, video_id = None, created_at = now,
                              check_in_id = None, referral_id = None,
                              free_credits_type = None\<rparr> of
                        (_, d3) \<Rightarrow>
                          (\<lparr>success = True, error = None,
                            remainingCredits = Some newCredits\<rparr>, d3)))))"

text \<open>\<open>refundCredits(userId, amount, description, taskId?, videoId?)\<close>\<close>

definition refundCredits ::
  "store_env \<Rightarrow> string \<Rightarrow> db \<Rightarrow> string \<Rightarrow> int \<Rightarrow> string \<Rightarrow> string option \<Rightarrow> string option
     \<Rightarrow> credit_result \<times> db" where
  "refundCredits env now d userId amnt descr taskId videoId =
     (case client_throws env of
        Some e \<Rightarrow> (credit_failed (error_message e), d)
      | None \<Rightarrow>
         (case select_profile env d userId of
            (QueryError, d1) \<Rightarrow> (credit_failed ''Failed to fetch user profile'', d1)
          | (NoRow, d1) \<Rightarrow> (credit_failed ''Failed to fetch user profile'', d1)
          | (Row p, d1) \<Rightarrow>
              let newCredits = num (credits p) + amnt in
              (case update_profile env d1 userId
                      (\<lambda>r. r\<lparr>credits := Some newCredits,
                              total_credits_spent :=
                                Some (max 0 (num (total_credits_spent p) - amnt))\<rparr>) of
                 (True, d2) \<Rightarrow> (credit_failed ''Failed to refund credits'', d2)
               | (False, d2) \<Rightarrow>
                   (case insert_transaction env d2
                           \<lparr>user_id = userId, transaction_type = Refund, amount = amnt,
                            description = task_description descr taskId,
                            task_id = taskId, video_id = or_null videoId, created_at = now,
                            check_in_id = None, referral_id = None,
                            free_credits_type = None\<rparr> of
                      (_, d3) \<Rightarrow>
                        (\<lparr>success = True, error = None, newCredits = Some newCredits\<rparr>,
                         d3)))))"

text \<open>\<open>getUserCredits(userId)\<close>\<close>

definition getUserCredits :: "store_env \<Rightarrow> db \<Rightarrow> string \<Rightarrow> user_credits \<times> db" where
  "getUserCredits env d userId =
     (case client_throws env of
        Some e \<Rightarrow> (\<lparr>uc_credits = 0, uc_error = Some (error_message e)\<rparr>, d)
      | None \<Rightarrow>
         (case select_profile env d userId of
            (Row p, d1) \<Rightarrow> (\<lparr>uc_credits = num (credits p), uc_error = None\<rparr>, d1)
          | (_, d1) \<Rightarrow> (\<lparr>uc_credits = 0, uc_error = Some ''Failed to fetch credits''\<rparr>, d1)))"

text \<open>
  \<open>addCredits(userId, amount, description, transactionType, metadata?)\<close>; both timestamps
  are taken as \<open>now\<close>.
\<close>

record add_metadata =
  checkInId :: "string option"
  referralId :: "string option"
  freeCreditsType :: "string option"

definition meta_field :: "add_metadata option \<Rightarrow> (add_metadata \<Rightarrow> string option) \<Rightarrow> string option" where
  "meta_field m f = (case m of None \<Rightarrow> None | Some md \<Rightarrow> or_null (f md))"

definition addCredits ::
  "store_env \<Rightarrow> string \<Rightarrow> db \<Rightarrow> string \<Rightarrow> int \<Rightarrow> string \<Rightarrow> transaction_type
     \<Rightarrow> add_metadata option \<Rightarrow> credit_result \<times> db" where
  "addCredits env now d userId amnt descr transactionType metadata =
     (case client_throws env of
        Some e \<Rightarrow> (credit_failed (error_message e), d)
      | None \<Rightarrow>
         (case select_profile env d userId of
            (QueryError, d1) \<Rightarrow> (credit_failed ''Failed to fetch user profile'', d1)
          | (NoRow, d1) \<Rightarrow> (credit_failed ''Failed to fetch user profile'', d1)
          | (Row p, d1) \<Rightarrow>
              let newCredits = num (credits p) + amnt in
              (case update_profile env d1 userId
                      (\<lambda>r. r\<lparr>credits := Some newCredits, updated_at := Some now\<rparr>) of
                 (True, d2) \<Rightarrow> (credit_failed ''Failed to add credits'', d2)
               | (False, d2) \<Rightarrow>
                   (case insert_transaction env d2
                           \<lparr>user_id = userId, transaction_type = transactionType, amount = amnt,
                            description = descr,
                            task_id = None, video_id = None, created_at = now,
                            check_in_id = meta_field metadata checkInId,
                            referral_id = meta_field metadata referralId,
                            free_credits_type = meta_field metadata freeCreditsType\<rparr> of
                      (_, d3) \<Rightarrow>
                        (\<lparr>success = True, error = None, newCredits = Some newCredits\<rparr>,
                         d3)))))"

text \<open>
  The filter \<open>.like('description', `%Task: ${taskId}%`)\<close> is the store's SQL \<open>LIKE\<close>:
  \<open>%\<close> in the pattern stands for any run of characters, \<open>_\<close> for any single character, a
  backslash makes the character after it stand for itself, and every other character stands
  for itself. The pattern comes first, the text second. On a pattern that ends in a lone
  backslash the store raises an error once the match gets there; the patterns built here
  end in \<open>%\<close>, so a backslash always has a character after it, and the function says
  \<open>False\<close> for that case.
\<close>

fun like_match :: "string \<Rightarrow> string \<Rightarrow> bool" where
  "like_match [] s = (s = [])"
| "like_match (p # ps) [] = (p = CHR ''%'' \<and> like_match ps [])"
| "like_match (p # ps) (c # cs) =
     (if p = CHR 0x5C then (case ps of [] \<Rightarrow> False | q # qs \<Rightarrow> q = c \<and> like_match qs cs)
      else if p = CHR ''%'' then like_match ps (c # cs) \<or> like_match (p # ps) cs
      else if p = CHR ''_'' then like_match ps cs
      else p = c \<and> like_match ps cs)"

text \<open>
  The four filters of \<open>recordVideoCompletion\<close>:
  \<open>.eq('user_id', userId).eq('transaction_type', 'usage').like('description', ...).is('video_id', null)\<close>
\<close>

definition completion_filter :: "string \<Rightarrow> string \<Rightarrow> credit_transaction \<Rightarrow> bool" where
  "completion_filter userId taskId r =
     (user_id r = userId \<and> transaction_type r = Usage \<and>
      like_match (''%Task: '' @ taskId @ ''%'') (description r) \<and> video_id r = None)"

definition completion_update :: "string \<Rightarrow> string \<Rightarrow> credit_transaction \<Rightarrow> credit_transaction" where
  "completion_update taskId videoId r =
     r\<lparr>video_id := Some videoId,
       description := ''Video generation completed - Task: '' @ taskId @ '', Video: '' @ videoId\<rparr>"

text \<open>\<open>recordVideoCompletion(userId, taskId, videoId)\<close>\<close>

definition recordVideoCompletion ::
  "store_env \<Rightarrow> db \<Rightarrow> string \<Rightarrow> string \<Rightarrow> string \<Rightarrow> result \<times> db" where
  "recordVideoCompletion env d userId taskId videoId =
     (case client_throws env of
        Some e \<Rightarrow> (\<lparr>success = False, error = Some (error_message e)\<rparr>, d)
      | None \<Rightarrow>
          let d1 = d\<lparr>calls := calls d @ [Update_credit_transactions]\<rparr> in
          if update_fails env
          then (\<lparr>success = False, error = Some ''Failed to update transaction record''\<rparr>, d1)
          else (\<lparr>success = True, error = None\<rparr>,
                d1\<lparr>credit_transactions :=
                     map (\<lambda>r. if completion_filter userId taskId r
                               then completion_update taskId videoId r else r)
                         (credit_transactions d1)\<rparr>))"

text \<open>The row that \<open>deductCredits\<close> inserts.\<close>

definition deduct_row :: "string \<Rightarrow> string \<Rightarrow> int \<Rightarrow> string \<Rightarrow> string option \<Rightarrow> credit_transaction" where
  "deduct_row now userId amnt descr taskId =
     \<lparr>user_id = userId, transaction_type = Usage, amount = - amnt,
      description = task_description descr taskId,
      task_id = taskId, video_id = None, created_at = now,
      check_in_id = None, referral_id = None, free_credits_type = None\<rparr>"

text \<open>The row that \<open>refundCredits\<close> inserts.\<close>

definition refund_row ::
  "string \<Rightarrow> string \<Rightarrow> int \<Rightarrow> string \<Rightarrow> string option \<Rightarrow> string option \<Rightarrow> credit_transaction" where
  "refund_row now userId amnt descr taskId videoId =
     \<lparr>user_id = userId, transaction_type = Refund, amount = amnt,
      description = task_description descr taskId,
      task_id = taskId, video_id = or_null videoId, created_at = now,
      check_in_id = None, referral_id = None, free_credits_type = None\<rparr>"

text \<open>The row \<open>transactionData\<close> that \<open>addCredits\<close> inserts.\<close>

definition add_row ::
  "string \<Rightarrow> string \<Rightarrow> int \<Rightarrow> string \<Rightarrow> transaction_type \<Rightarrow> add_metadata option
     \<Rightarrow> credit_transaction" where
  "add_row now userId amnt descr transactionType metadata =
     \<lparr>user_id = userId, transaction_type = transactionType, amount = amnt,
      description = descr,
      task_id = None, video_id = None, created_at = now,
      check_in_id = meta_field metadata checkInId,
      referral_id = meta_field metadata referralId,
      free_credits_type = meta_field metadata freeCreditsType\<rparr>"

text \<open>A string without the two wildcards and the escape character of \<open>LIKE\<close>.\<close>

definition like_literal :: "string \<Rightarrow> bool" where
  "like_literal t = (CHR ''%'' \<notin> set t \<and> CHR ''_'' \<notin> set t \<and> CHR 0x5C \<notin> set t)"

section \<open>The media pipeline\<close>

text \<open>
  The local disk is the set of paths that exist. What a download meets on the network is one
  of: a response with a status code whose body then either streams to the end (so many bytes)
  or breaks the file stream; a failing request; or five minutes of silence. On the timeout
  the code destroys the request and rejects; the flag says whether the runtime reports the
  destroyed request through the request's error event, whose handler unlinks the file.
\<close>

datatype body_outcome = Finishes nat | FileStreamFails

datatype download_outcome =
    Responds nat body_outcome
  | RequestFails
  | TimesOut bool

datatype failure =
    HttpStatus nat
  | FileStreamError
  | RequestError
  | DownloadTimeout
  | UploadFailed string
  | ClientThrew thrown
  | SaveFailed string
  | NoDataReturned

datatype insert_reply = InsertReturns string | InsertError string | InsertNothing

record video_metadata =
  m_taskId :: string
  m_userId :: "string option"
  m_originalPrompt :: "string option"
  m_triggers :: "string list option"
  m_duration :: "string option"
  m_quality :: "string option"
  m_aspectRatio :: "string option"

record processing_result =
  videoUrl :: string
  thumbnailUrl :: string
  videoFileSize :: nat
  thumbnailFileSize :: nat
  localVideoPath :: string
  localThumbnailPath :: string

record completed =
  c_videoId :: string
  c_videoUrl :: string
  c_thumbnailUrl :: string

text \<open>
  The world of one pipeline run: the temp directory chosen from \<open>NODE_ENV\<close>, the value of
  \<open>Date.now()\<close> in decimal, the value of \<open>new Date().toISOString()\<close>, what each URL answers,
  which uploads and unlinks fail, the public endpoint of the bucket, whether \<open>createClient\<close>
  throws, what the store answers to the insert into \<open>videos\<close>, and the world of the ledger
  call that tags the transaction.
\<close>

record media_env =
  temp_dir :: string
  timestamp :: string
  iso_now :: string
  fetch :: "string \<Rightarrow> download_outcome"
  upload_fails :: "string \<Rightarrow> bool"
  unlink_fails :: "string \<Rightarrow> bool"
  r2_endpoint :: string
  create_client_throws :: "thrown option"
  videos_insert :: insert_reply
  ledger_env :: store_env

text \<open>
  \<open>downloadVideo(url, fileName)\<close>: \<open>fs.createWriteStream\<close> creates the file before the request
  is answered; only the two error handlers unlink it.
\<close>

definition downloadVideo ::
  "media_env \<Rightarrow> string set \<Rightarrow> string \<Rightarrow> string \<Rightarrow> (failure + string \<times> nat) \<times> string set" where
  "downloadVideo env files url fileName =
     (let filePath = temp_dir env @ ''/'' @ fileName;
          files1 = insert filePath files in
      case fetch env url of
        Responds code body \<Rightarrow>
          if code \<noteq> 200 then (Inl (HttpStatus code), files1)
          else (case body of
                  Finishes n \<Rightarrow> (Inr (filePath, n), files1)
                | FileStreamFails \<Rightarrow> (Inl FileStreamError, files1 - {filePath}))
      | RequestFails \<Rightarrow> (Inl RequestError, files1 - {filePath})
      | TimesOut reported \<Rightarrow>
          (Inl DownloadTimeout, if reported then files1 - {filePath} else files1))"

text \<open>\<open>uploadToR2(filePath, key, contentType)\<close>: reads the file and puts it into the bucket.\<close>

definition uploadToR2 :: "media_env \<Rightarrow> string set \<Rightarrow> string \<Rightarrow> string \<Rightarrow> failure + string" where
  "uploadToR2 env files filePath key =
     (if filePath \<in> files
      then (if upload_fails env key then Inl (UploadFailed key)
            else Inr (r2_endpoint env @ ''/'' @ key))
      else Inl (UploadFailed key))"

text \<open>\<open>if (fs.existsSync(p)) fs.unlinkSync(p)\<close> inside \<open>try\<close>, a failure only warned about\<close>

definition unlink_quietly :: "media_env \<Rightarrow> string \<Rightarrow> string set \<Rightarrow> string set" where
  "unlink_quietly env p files = (if p \<in> files \<and> \<not> unlink_fails env p then files - {p} else files)"

text \<open>\<open>cleanupTempFiles(filePaths)\<close>\<close>

definition cleanupTempFiles :: "media_env \<Rightarrow> string list \<Rightarrow> string set \<Rightarrow> string set" where
  "cleanupTempFiles env filePaths files = fold (unlink_quietly env) filePaths files"

text \<open>
  \<open>processKieVideoAndThumbnail(kieVideoUrl, kieThumbnailUrl, metadata)\<close>. Both downloads run
  to their end whatever the other does; \<open>Promise.all\<close> rejects with one of the failures (the
  video's is taken when both fail). \<open>localVideoPath\<close> and \<open>localThumbnailPath\<close> are assigned
  after \<open>Promise.all\<close> has resolved, so in the \<open>catch\<close> block they are still \<open>null\<close> when a
  download failed, and the two guarded unlinks do nothing.
\<close>

definition processKieVideoAndThumbnail ::
  "media_env \<Rightarrow> string set \<Rightarrow> string \<Rightarrow> string \<Rightarrow> video_metadata
     \<Rightarrow> (failure + processing_result) \<times> string set" where
  "processKieVideoAndThumbnail env files kieVideoUrl kieThumbnailUrl metadata =
     (let videoFileName = ''kie-video-'' @ m_taskId metadata @ ''-'' @ timestamp env @ ''.mp4'';
          thumbnailFileName =
            ''kie-thumbnail-'' @ m_taskId metadata @ ''-'' @ timestamp env @ ''.jpg'';
          (videoDownload, files1) = downloadVideo env files kieVideoUrl videoFileName;
          (thumbnailDownload, files2) = downloadVideo env files1 kieThumbnailUrl thumbnailFileName
      in
      case videoDownload of
        Inl e \<Rightarrow> (Inl e, files2)
      | Inr (videoPath, videoSize) \<Rightarrow>
         (case thumbnailDownload of
            Inl e \<Rightarrow> (Inl e, files2)
          | Inr (thumbnailPath, thumbnailSize) \<Rightarrow>
             (let cleaned = unlink_quietly env thumbnailPath (unlink_quietly env videoPath files2)
              in
              case uploadToR2 env files2 videoPath
                     (''videos/video-'' @ timestamp env @ ''-'' @ take 8 (m_taskId metadata)
                        @ ''.mp4'') of
                Inl e \<Rightarrow> (Inl e, cleaned)
              | Inr vUrl \<Rightarrow>
                 (case uploadToR2 env files2 thumbnailPath
                         (''thumbnails/thumb-'' @ timestamp env @ ''-''
                            @ take 8 (m_taskId metadata) @ ''.jpg'') of
                    Inl e \<Rightarrow> (Inl e, cleaned)
                  | Inr tUrl \<Rightarrow>
                      (Inr \<lparr>videoUrl = vUrl, thumbnailUrl = tUrl,
                            videoFileSize = videoSize, thumbnailFileSize = thumbnailSize,
                            localVideoPath = videoPath, localThumbnailPath = thumbnailPath\<rparr>,
                       files2)))))"

text \<open>
  The row \<open>videoData\<close> that \<open>saveVideoToDatabase\<close> inserts, together with the id the store
  gives it.
\<close>

definition videoData ::
  "media_env \<Rightarrow> processing_result \<Rightarrow> video_metadata \<Rightarrow> string \<Rightarrow> video_row" where
  "videoData env processingResult metadata new_id =
     \<lparr>v_id = new_id,
      v_user_id = or_null (m_userId metadata),
      v_task_id = m_taskId metadata,
      v_title = ''ASMR Video '' @ take 10 (iso_now env),
      v_description = ''AI-generated ASMR video via KIE API'',
      v_prompt = or_else (m_originalPrompt metadata) ''Generated via KIE API'',
      v_triggers = (case m_triggers metadata of None \<Rightarrow> [] | Some ts \<Rightarrow> ts),
      v_category = ''Object'',
      v_status = ''ready'',
      v_credit_cost = 20,
      v_duration = or_else (m_duration metadata) ''5s'',
      v_resolution = or_else (m_quality metadata) ''720p'',
      v_aspect_ratio = or_else (m_aspectRatio metadata) ''16:9'',
      v_preview_url = videoUrl processingResult,
      v_download_url = videoUrl processingResult,
      v_thumbnail_url = thumbnailUrl processingResult,
      v_file_size = videoFileSize processingResult,
      v_provider = ''kie-runway'',
      v_generation_completed_at = iso_now env,
      v_created_at = iso_now env,
      v_updated_at = iso_now env\<rparr>"

text \<open>
  \<open>saveVideoToDatabase(processingResult, metadata)\<close>: one insert into \<open>videos\<close>, answered with
  the new row's id, with an error, or with neither; a row exists only in the first case.
\<close>

definition saveVideoToDatabase ::
  "media_env \<Rightarrow> db \<Rightarrow> processing_result \<Rightarrow> video_metadata \<Rightarrow> (failure + string) \<times> db" where
  "saveVideoToDatabase env d processingResult metadata =
     (case create_client_throws env of
        Some e \<Rightarrow> (Inl (ClientThrew e), d)
      | None \<Rightarrow>
         (let d1 = d\<lparr>calls := calls d @ [Insert_videos]\<rparr> in
          case videos_insert env of
            InsertError msg \<Rightarrow> (Inl (SaveFailed msg), d1)
          | InsertNothing \<Rightarrow> (Inl NoDataReturned, d1)
          | InsertReturns new_id \<Rightarrow>
              (Inr new_id,
               d1\<lparr>videos := videos d1 @ [videoData env processingResult metadata new_id]\<rparr>)))"

text \<open>
  \<open>completeVideoProcessing(kieVideoUrl, kieThumbnailUrl, metadata)\<close>. When
  \<open>processKieVideoAndThumbnail\<close> throws, \<open>processingResult\<close> is still \<open>null\<close> and the \<open>catch\<close>
  block deletes nothing.
\<close>

definition completeVideoProcessing ::
  "media_env \<Rightarrow> db \<Rightarrow> string set \<Rightarrow> string \<Rightarrow> string \<Rightarrow> video_metadata
     \<Rightarrow> (failure + completed) \<times> db \<times> string set" where
  "completeVideoProcessing env d files kieVideoUrl kieThumbnailUrl metadata =
     (case processKieVideoAndThumbnail env files kieVideoUrl kieThumbnailUrl metadata of
        (Inl e, files1) \<Rightarrow> (Inl e, d, files1)
      | (Inr processingResult, files1) \<Rightarrow>
         (case saveVideoToDatabase env d processingResult metadata of
            (Inl e, d1) \<Rightarrow>
              (Inl e, d1,
               cleanupTempFiles env
                 (filter (\<lambda>p. p \<noteq> [])
                    [localVideoPath processingResult, localThumbnailPath processingResult])
                 files1)
          | (Inr videoId, d1) \<Rightarrow>
              (let d2 = (case m_userId metadata of
                           None \<Rightarrow> d1
                         | Some u \<Rightarrow>
                             if u = [] then d1
                             else snd (recordVideoCompletion (ledger_env env) d1 u
                                         (m_taskId metadata) videoId))
               in
               (Inr \<lparr>c_videoId = videoId, c_videoUrl = videoUrl processingResult,
                     c_thumbnailUrl = thumbnailUrl processingResult\<rparr>,
                d2,
                cleanupTempFiles env
                  [localVideoPath processingResult, localThumbnailPath processingResult]
                  files1))))"

section \<open>The payment gateway client\<close>















section \<open>Concrete worlds\<close>

definition all_well :: store_env where
  "all_well = \<lparr>client_throws = None, select_reply = SelectAnswers,
               update_fails = False, insert_fails = False\<rparr>"

definition ledger_insert_down :: store_env where
  "ledger_insert_down = all_well\<lparr>insert_fails := True\<rparr>"

definition profile_100 :: profile where
  "profile_100 = \<lparr>credits = Some 100, total_credits_spent = Some 10,
                  total_videos_created = None, updated_at = Some ''2025-01-01T00:00:00.000Z'',
                  email = Some ''u1@example.com'', plan_type = Some ''free''\<rparr>"

definition db_100 :: db where
  "db_100 = \<lparr>user_profiles = [''u1'' \<mapsto> profile_100], credit_transactions = [],
             videos = [], calls = []\<rparr>"

definition usage_row :: "string \<Rightarrow> string \<Rightarrow> credit_transaction" where
  "usage_row descr at =
     \<lparr>user_id = ''u1'', transaction_type = Usage, amount = - 20, description = descr,
      task_id = Some ''task-1'', video_id = None, created_at = at,
      check_in_id = None, referral_id = None, free_credits_type = None\<rparr>"



definition other_row :: credit_transaction where
  "other_row = usage_row ''video gen - Task: job-7'' ''2025-01-03T10:00:00.000Z''"


definition db_other_task :: db where
  "db_other_task = \<lparr>user_profiles = [''u1'' \<mapsto> profile_100],
                    credit_transactions = [other_row], videos = [], calls = []\<rparr>"

definition task_1 :: video_metadata where
  "task_1 = \<lparr>m_taskId = ''task-1'', m_userId = Some ''u1'', m_originalPrompt = None,
             m_triggers = None, m_duration = None, m_quality = None, m_aspectRatio = None\<rparr>"

text \<open>The video is served, the thumbnail answers 404; everything else works.\<close>

definition thumbnail_404 :: media_env where
  "thumbnail_404 =
     \<lparr>temp_dir = ''/tmp'', timestamp = ''1735725600000'', iso_now = ''2025-01-01T10:00:00.000Z'',
      fetch = (\<lambda>u. if u = ''https://kie.example/v.mp4'' then Responds 200 (Finishes 4096)
                    else Responds 404 (Finishes 0)),
      upload_fails = (\<lambda>k. False), unlink_fails = (\<lambda>p. False),
      r2_endpoint = ''https://cdn.example'', create_client_throws = None,
      videos_insert = InsertReturns ''vid-1'', ledger_env = all_well\<rparr>"

text \<open>Both files are served and uploaded, the catalog insert answers with id \<open>vid-1\<close>.\<close>

definition both_served :: media_env where
  "both_served = thumbnail_404\<lparr>fetch := (\<lambda>u. Responds 200 (Finishes 4096))\<rparr>"

definition tagging_down :: media_env where
  "tagging_down = both_served\<lparr>ledger_env := all_well\<lparr>update_fails := True\<rparr>\<rparr>"

definition run_deduct_30 :: "deduct_result \<times> db" where
  "run_deduct_30 =
     deductCredits all_well ''2025-01-01T10:00:00.000Z'' db_100 ''u1'' 30 ''video gen''
       (Some ''task-1'')"

definition run_deduct_130 :: "deduct_result \<times> db" where
  "run_deduct_130 =
     deductCredits all_well ''2025-01-01T10:00:00.000Z'' db_100 ''u1'' 130 ''video gen''
       (Some ''task-1'')"

definition run_add_5 :: "credit_result \<times> db" where
  "run_add_5 =
     addCredits ledger_insert_down ''2025-01-01T10:00:00.000Z'' db_100 ''u1'' 5 ''daily check-in''
       Bonus None"

definition run_deduct_30_unlogged :: "deduct_result \<times> db" where
  "run_deduct_30_unlogged =
     deductCredits ledger_insert_down ''2025-01-01T10:00:00.000Z'' db_100 ''u1'' 30 ''video gen''
       (Some ''task-1'')"

definition run_refund_30 :: "credit_result \<times> db" where
  "run_refund_30 =
     refundCredits all_well ''2025-01-01T10:00:00.000Z'' db_100 ''u1'' 30 ''generation failed''
       (Some ''task-1'') None"

definition run_refund_then_deduct :: "deduct_result \<times> db" where
  "run_refund_then_deduct =
     deductCredits all_well ''2025-01-01T11:00:00.000Z'' (snd run_refund_30) ''u1'' 30
       ''video gen'' (Some ''task-2'')"

definition select_down :: store_env where
  "select_down = all_well\<lparr>select_reply := SelectError\<rparr>"


definition update_down :: store_env where
  "update_down = all_well\<lparr>update_fails := True\<rparr>"

definition run_deduct_30_refused :: "deduct_result \<times> db" where
  "run_deduct_30_refused =
     deductCredits update_down ''2025-01-01T10:00:00.000Z'' db_100 ''u1'' 30 ''video gen''
       (Some ''task-1'')"

definition run_deduct_30_empty_task :: "deduct_result \<times> db" where
  "run_deduct_30_empty_task =
     deductCredits all_well ''2025-01-01T10:00:00.000Z'' db_100 ''u1'' 30 ''video gen''
       (Some [])"

definition run_refund_30_unlogged :: "credit_result \<times> db" where
  "run_refund_30_unlogged =
     refundCredits ledger_insert_down ''2025-01-01T10:00:00.000Z'' db_100 ''u1'' 30
       ''generation failed'' (Some ''task-1'') None"

definition run_refund_minus_50 :: "credit_result \<times> db" where
  "run_refund_minus_50 =
     refundCredits all_well ''2025-01-01T10:00:00.000Z'' db_100 ''u1'' (- 50)
       ''generation failed'' (Some ''task-1'') None"



definition served_result :: processing_result where
  "served_result =
     \<lparr>videoUrl = ''https://cdn.example/videos/video-1735725600000-task-1.mp4'',
      thumbnailUrl = ''https://cdn.example/thumbnails/thumb-1735725600000-task-1.jpg'',
      videoFileSize = 4096, thumbnailFileSize = 4096,
      localVideoPath = ''/tmp/kie-video-task-1-1735725600000.mp4'',
      localThumbnailPath = ''/tmp/kie-thumbnail-task-1-1735725600000.jpg''\<rparr>"

text \<open>Both files are served, the upload of the video fails.\<close>

definition video_upload_down :: media_env where
  "video_upload_down = both_served\<lparr>upload_fails := (\<lambda>k. take 7 k = ''videos/'')\<rparr>"

text \<open>Both files are served and uploaded, the catalog insert is refused.\<close>

definition catalog_down :: media_env where
  "catalog_down = both_served\<lparr>videos_insert := InsertError ''permission denied''\<rparr>"

section \<open>Facts about the store and the ledger\<close>

lemma select_profile_row:
  "select_reply env = SelectAnswers \<Longrightarrow> user_profiles d userId = Some p \<Longrightarrow>
   select_profile env d userId = (Row p, d\<lparr>calls := calls d @ [Select_user_profiles userId]\<rparr>)"
  by (simp add: select_profile_def)

lemma select_profile_Row:
  "select_profile env d userId = (Row p, d') \<Longrightarrow>
   select_reply env = SelectAnswers \<and> user_profiles d userId = Some p"
  by (auto simp: select_profile_def Let_def split: select_reply.splits option.splits)

lemma task_description_contains:
  "t \<noteq> [] \<Longrightarrow> sublist (''Task: '' @ t) (task_description descr (Some t))"
proof -
  assume "t \<noteq> []"
  then have "task_description descr (Some t) = (descr @ '' - '') @ (''Task: '' @ t)"
    by (simp add: task_description_def)
  then show ?thesis
    by (simp only: sublist_append_leftI)
qed

lemma task_description_plain:
  "task_description descr None = descr" "task_description descr (Some []) = descr"
  by (simp_all add: task_description_def)

lemma deduct_row_fields:
  "user_id (deduct_row now userId A descr taskId) = userId"
  "transaction_type (deduct_row now userId A descr taskId) = Usage"
  "amount (deduct_row now userId A descr taskId) = - A"
  "video_id (deduct_row now userId A descr taskId) = None"
  by (simp_all add: deduct_row_def)

lemma deduct_row_description:
  "case taskId of
     None \<Rightarrow> description (deduct_row now userId A descr taskId) = descr
   | Some t \<Rightarrow> if t = [] then description (deduct_row now userId A descr taskId) = descr
              else sublist (''Task: '' @ t) (description (deduct_row now userId A descr taskId))"
proof (cases taskId)
  case None
  then show ?thesis by (simp add: deduct_row_def task_description_plain)
next
  case (Some t)
  show ?thesis
  proof (cases "t = []")
    case True
    with Some show ?thesis by (simp add: deduct_row_def task_description_plain)
  next
    case False
    have "description (deduct_row now userId A descr (Some t)) = task_description descr (Some t)"
      by (simp add: deduct_row_def)
    with task_description_contains [OF False, of descr]
    have "sublist (''Task: '' @ t) (description (deduct_row now userId A descr (Some t)))"
      by (simp only:)
    with Some False show ?thesis by (simp only: option.case if_False)
  qed
qed

lemma deductCredits_ok:
  assumes "client_throws env = None" and "select_reply env = SelectAnswers"
    and "user_profiles d userId = Some p" and "\<not> num (credits p) < A"
    and "\<not> update_fails env"
  shows "deductCredits env now d userId A descr taskId =
    (\<lparr>success = True, error = None, remainingCredits = Some (num (credits p) - A)\<rparr>,
     d\<lparr>calls := calls d @ [Select_user_profiles userId, Update_user_profiles userId,
                            Insert_credit_transactions],
       user_profiles := (user_profiles d)(userId \<mapsto>
          p\<lparr>credits := Some (num (credits p) - A),
            total_credits_spent := Some (num (total_credits_spent p) + A),
            total_videos_created := Some (num (total_videos_created p) + 1)\<rparr>),
       credit_transactions := credit_transactions d @
          (if insert_fails env then [] else [deduct_row now userId A descr taskId])\<rparr>)"
  using assms
  by (simp add: deductCredits_def select_profile_row update_profile_def insert_transaction_def
      deduct_row_def Let_def)

lemma refundCredits_ok:
  assumes "client_throws env = None" and "select_reply env = SelectAnswers"
    and "user_profiles d userId = Some p" and "\<not> update_fails env"
  shows "refundCredits env now d userId A descr taskId videoId =
    (\<lparr>success = True, error = None, newCredits = Some (num (credits p) + A)\<rparr>,
     d\<lparr>calls := calls d @ [Select_user_profiles userId, Update_user_profiles userId,
                            Insert_credit_transactions],
       user_profiles := (user_profiles d)(userId \<mapsto>
          p\<lparr>credits := Some (num (credits p) + A),
            total_credits_spent := Some (max 0 (num (total_credits_spent p) - A))\<rparr>),
       credit_transactions := credit_transactions d @
          (if insert_fails env then [] else [refund_row now userId A descr taskId videoId])\<rparr>)"
  using assms
  by (simp add: refundCredits_def select_profile_row update_profile_def insert_transaction_def
      refund_row_def Let_def)

lemma addCredits_ok:
  assumes "client_throws env = None" and "select_reply env = SelectAnswers"
    and "user_profiles d userId = Some p" and "\<not> update_fails env"
  shows "addCredits env now d userId A descr ty metadata =
    (\<lparr>success = True, error = None, newCredits = Some (num (credits p) + A)\<rparr>,
     d\<lparr>calls := calls d @ [Select_user_profiles userId, Update_user_profiles userId,
                            Insert_credit_transactions],
       user_profiles := (user_profiles d)(userId \<mapsto>
          p\<lparr>credits := Some (num (credits p) + A), updated_at := Some now\<rparr>),
       credit_transactions := credit_transactions d @
          (if insert_fails env then [] else [add_row now userId A descr ty metadata])\<rparr>)"
  using assms
  by (simp add: addCredits_def select_profile_row update_profile_def insert_transaction_def
      add_row_def Let_def)

lemma deductCredits_success:
  assumes "deductCredits env now d userId A descr taskId = (r, d')" and "success r"
  shows "client_throws env = None \<and> select_reply env = SelectAnswers \<and>
         (\<exists>p. user_profiles d userId = Some p \<and> \<not> num (credits p) < A) \<and> \<not> update_fails env"
proof (cases "client_throws env")
  case (Some e)
  with assms show ?thesis by (auto simp: deductCredits_def deduct_failed_def)
next
  case None
  obtain s d1 where sel: "select_profile env d userId = (s, d1)"
    by (cases "select_profile env d userId")
  show ?thesis
  proof (cases s)
    case (Row p)
    with sel have ans: "select_reply env = SelectAnswers" and prof: "user_profiles d userId = Some p"
      using select_profile_Row by blast+
    have enough: "\<not> num (credits p) < A"
      using assms None sel Row by (auto simp: deductCredits_def deduct_failed_def)
    have "\<not> update_fails env"
    proof
      assume "update_fails env"
      then have "\<not> success (fst (deductCredits env now d userId A descr taskId))"
        using None sel Row enough
        by (simp add: deductCredits_def deduct_failed_def update_profile_def Let_def)
      with assms show False by simp
    qed
    with None ans prof enough show ?thesis by blast
  next
    case NoRow
    with assms None sel show ?thesis by (auto simp: deductCredits_def deduct_failed_def)
  next
    case QueryError
    with assms None sel show ?thesis by (auto simp: deductCredits_def deduct_failed_def)
  qed
qed

lemma refundCredits_success:
  assumes "refundCredits env now d userId A descr taskId videoId = (r, d')" and "success r"
  shows "client_throws env = None \<and> select_reply env = SelectAnswers \<and>
         (\<exists>p. user_profiles d userId = Some p) \<and> \<not> update_fails env"
proof (cases "client_throws env")
  case (Some e)
  with assms show ?thesis by (auto simp: refundCredits_def credit_failed_def)
next
  case None
  obtain s d1 where sel: "select_profile env d userId = (s, d1)"
    by (cases "select_profile env d userId")
  show ?thesis
  proof (cases s)
    case (Row p)
    with sel have ans: "select_reply env = SelectAnswers" and prof: "user_profiles d userId = Some p"
      using select_profile_Row by blast+
    have "\<not> update_fails env"
    proof
      assume "update_fails env"
      then have "\<not> success (fst (refundCredits env now d userId A descr taskId videoId))"
        using None sel Row
        by (simp add: refundCredits_def credit_failed_def update_profile_def Let_def)
      with assms show False by simp
    qed
    with None ans prof show ?thesis by blast
  next
    case NoRow
    with assms None sel show ?thesis by (auto simp: refundCredits_def credit_failed_def)
  next
    case QueryError
    with assms None sel show ?thesis by (auto simp: refundCredits_def credit_failed_def)
  qed
qed

lemma getUserCredits_reads:
  assumes "client_throws env = None" and "select_reply env = SelectAnswers"
    and "user_profiles d userId = Some p"
  shows "fst (getUserCredits env d userId) = \<lparr>uc_credits = num (credits p), uc_error = None\<rparr>"
  using assms by (simp add: getUserCredits_def select_profile_row)

lemma all_well_simps:
  "client_throws all_well = None" "select_reply all_well = SelectAnswers"
  "\<not> update_fails all_well" "\<not> insert_fails all_well"
  by (simp_all add: all_well_def)

lemma ledger_insert_down_simps:
  "client_throws ledger_insert_down = None" "select_reply ledger_insert_down = SelectAnswers"
  "\<not> update_fails ledger_insert_down" "insert_fails ledger_insert_down"
  by (simp_all add: ledger_insert_down_def all_well_def)

lemma db_100_simps:
  "user_profiles db_100 ''u1'' = Some profile_100" "credit_transactions db_100 = []"
  "calls db_100 = []" "videos db_100 = []"
  by (simp_all add: db_100_def)

lemma profile_100_simps:
  "credits profile_100 = Some 100" "total_credits_spent profile_100 = Some 10"
  "total_videos_created profile_100 = None"
  by (simp_all add: profile_100_def)

section \<open>The \<open>LIKE\<close> filter and the completion tag\<close>

text \<open>
  For a pattern without wildcards and without the escape character between two \<open>%\<close>,
  \<open>LIKE\<close> is the search for a contiguous piece of the text.
\<close>

lemma like_match_percent:
  "like_match (CHR ''%'' # ps) s \<longleftrightarrow> (\<exists>pre suf. s = pre @ suf \<and> like_match ps suf)"
proof (induction s)
  case Nil
  show ?case by simp
next
  case (Cons c cs)
  have "like_match (CHR ''%'' # ps) (c # cs) \<longleftrightarrow>
        like_match ps (c # cs) \<or> like_match (CHR ''%'' # ps) cs"
    by simp
  also have "\<dots> \<longleftrightarrow> like_match ps (c # cs) \<or> (\<exists>pre suf. cs = pre @ suf \<and> like_match ps suf)"
    using Cons.IH by simp
  also have "\<dots> \<longleftrightarrow> (\<exists>pre suf. c # cs = pre @ suf \<and> like_match ps suf)"
  proof
    assume "like_match ps (c # cs) \<or> (\<exists>pre suf. cs = pre @ suf \<and> like_match ps suf)"
    then show "\<exists>pre suf. c # cs = pre @ suf \<and> like_match ps suf"
    proof
      assume "like_match ps (c # cs)"
      then have "c # cs = [] @ (c # cs) \<and> like_match ps (c # cs)" by simp
      then show ?thesis by blast
    next
      assume "\<exists>pre suf. cs = pre @ suf \<and> like_match ps suf"
      then obtain pre suf where "cs = pre @ suf" "like_match ps suf" by blast
      then have "c # cs = (c # pre) @ suf \<and> like_match ps suf" by simp
      then show ?thesis by blast
    qed
  next
    assume "\<exists>pre suf. c # cs = pre @ suf \<and> like_match ps suf"
    then obtain pre suf where eq: "c # cs = pre @ suf" and m: "like_match ps suf" by blast
    show "like_match ps (c # cs) \<or> (\<exists>pre suf. cs = pre @ suf \<and> like_match ps suf)"
    proof (cases pre)
      case Nil
      with eq m show ?thesis by simp
    next
      case (Cons a pre')
      with eq have "cs = pre' @ suf" by simp
      with m show ?thesis by blast
    qed
  qed
  finally show ?case .
qed

lemma like_match_literal:
  "like_literal pat \<Longrightarrow>
   like_match (pat @ ps) s \<longleftrightarrow> (\<exists>rest. s = pat @ rest \<and> like_match ps rest)"
proof (induction pat arbitrary: s)
  case Nil
  show ?case by simp
next
  case (Cons a pat)
  then have a: "a \<noteq> CHR ''%''" "a \<noteq> CHR ''_''" "a \<noteq> CHR 0x5C" and free: "like_literal pat"
    by (auto simp: like_literal_def)
  show ?case
  proof (cases s)
    case Nil
    with a show ?thesis by simp
  next
    case (Cons c cs)
    with a Cons.IH [OF free, of cs] show ?thesis by auto
  qed
qed

lemma like_match_any: "like_match ''%'' s"
  by (induction s) simp_all

lemma like_match_contains:
  assumes "like_literal pat"
  shows "like_match (CHR ''%'' # pat @ ''%'') s \<longleftrightarrow> sublist pat s"
proof -
  have "like_match (CHR ''%'' # pat @ ''%'') s \<longleftrightarrow>
        (\<exists>pre suf. s = pre @ suf \<and> like_match (pat @ ''%'') suf)"
    by (rule like_match_percent)
  also have "\<dots> \<longleftrightarrow> (\<exists>pre suf. s = pre @ suf \<and> (\<exists>rest. suf = pat @ rest \<and> like_match ''%'' rest))"
    using like_match_literal [OF assms] by simp
  also have "\<dots> \<longleftrightarrow> (\<exists>pre rest. s = pre @ pat @ rest)"
    using like_match_any by blast
  finally show ?thesis by (simp add: sublist_def)
qed

lemma completion_filter_contains:
  assumes "like_literal taskId"
  shows "completion_filter userId taskId r \<longleftrightarrow>
         user_id r = userId \<and> transaction_type r = Usage \<and>
         sublist (''Task: '' @ taskId) (description r) \<and> video_id r = None"
proof -
  have "like_literal (''Task: '' @ taskId)"
    using assms by (simp add: like_literal_def)
  from like_match_contains [OF this, of "description r"]
  show ?thesis by (simp add: completion_filter_def)
qed

text \<open>
  The row written by \<open>deductCredits\<close> for a task is one that \<open>recordVideoCompletion\<close> finds
  for the same user and task.
\<close>

lemma deduct_row_is_found:
  assumes "t \<noteq> []" and "like_literal t"
  shows "completion_filter userId t (deduct_row now userId A descr (Some t))"
proof -
  from deduct_row_description [of now userId A descr "Some t"] assms(1)
  have "sublist (''Task: '' @ t) (description (deduct_row now userId A descr (Some t)))"
    by (simp only: option.case if_False)
  with completion_filter_contains [OF assms(2), of userId "deduct_row now userId A descr (Some t)"]
    deduct_row_fields [of now userId A descr "Some t"]
  show ?thesis by blast
qed

text \<open>
  The escape character at work: for the task id \<open>a\_b\<close> the filter finds the description
  with \<open>a_b\<close> in it, and neither the one that repeats the backslash nor the one with another
  character in the place of the underscore; without the backslash the underscore stands for
  any character.
\<close>

lemma like_match_escape:
  "like_match (''%Task: a'' @ [CHR 0x5C] @ ''_b%'') ''gen - Task: a_b'' \<and>
   \<not> like_match (''%Task: a'' @ [CHR 0x5C] @ ''_b%'') (''gen - Task: a'' @ [CHR 0x5C] @ ''_b'') \<and>
   \<not> like_match (''%Task: a'' @ [CHR 0x5C] @ ''_b%'') ''gen - Task: axb'' \<and>
   like_match ''%Task: a_b%'' ''gen - Task: axb, more''"
  by simp

lemma recordVideoCompletion_ok:
  assumes "client_throws env = None" and "\<not> update_fails env"
  shows "recordVideoCompletion env d userId taskId videoId =
    (\<lparr>success = True, error = None\<rparr>,
     d\<lparr>calls := calls d @ [Update_credit_transactions],
       credit_transactions :=
         map (\<lambda>r. if completion_filter userId taskId r
                   then completion_update taskId videoId r else r)
             (credit_transactions d)\<rparr>)"
  using assms by (simp add: recordVideoCompletion_def Let_def)

lemma recordVideoCompletion_frame:
  "user_profiles (snd (recordVideoCompletion env d userId taskId videoId)) = user_profiles d \<and>
   videos (snd (recordVideoCompletion env d userId taskId videoId)) = videos d"
  by (simp add: recordVideoCompletion_def Let_def split: option.splits)

lemma recordVideoCompletion_no_match:
  assumes "client_throws env = None" and "\<not> update_fails env"
    and "\<forall>row\<in>set (credit_transactions d). \<not> completion_filter userId taskId row"
  shows "recordVideoCompletion env d userId taskId videoId =
           (\<lparr>success = True, error = None\<rparr>, d\<lparr>calls := calls d @ [Update_credit_transactions]\<rparr>)"
proof -
  have "map (\<lambda>r. if completion_filter userId taskId r
                   then completion_update taskId videoId r else r) (credit_transactions d)
        = credit_transactions d"
    using assms(3) by (simp add: map_idI)
  with recordVideoCompletion_ok [OF assms(1,2), of d userId taskId videoId]
  show ?thesis by simp
qed


lemma other_row_differs: "\<not> completion_filter ''u1'' ''task-1'' other_row"
  by (simp add: completion_filter_def other_row_def usage_row_def)

section \<open>Facts about the media pipeline\<close>

lemma saveVideoToDatabase_ok:
  assumes "create_client_throws menv = None" and "videos_insert menv = InsertReturns vid"
  shows "saveVideoToDatabase menv d pr md =
           (Inr vid, d\<lparr>calls := calls d @ [Insert_videos],
                      videos := videos d @ [videoData menv pr md vid]\<rparr>)"
  using assms by (simp add: saveVideoToDatabase_def Let_def)

lemma videoData_fields:
  "v_id (videoData menv pr md vid) = vid" "v_task_id (videoData menv pr md vid) = m_taskId md"
  by (simp_all add: videoData_def)

lemma completeVideoProcessing_saved:
  assumes "processKieVideoAndThumbnail menv files kv kt md = (Inr pr, files1)"
    and "create_client_throws menv = None" and "videos_insert menv = InsertReturns vid"
  shows "\<exists>d' files'. completeVideoProcessing menv d0 files kv kt md =
            (Inr \<lparr>c_videoId = vid, c_videoUrl = videoUrl pr, c_thumbnailUrl = thumbnailUrl pr\<rparr>,
             d', files') \<and>
            (\<exists>row. videos d' = videos d0 @ [row] \<and> v_id row = vid \<and> v_task_id row = m_taskId md)"
proof -
  define d1 where "d1 = d0\<lparr>calls := calls d0 @ [Insert_videos],
                            videos := videos d0 @ [videoData menv pr md vid]\<rparr>"
  have save: "saveVideoToDatabase menv d0 pr md = (Inr vid, d1)"
    unfolding d1_def by (rule saveVideoToDatabase_ok [OF assms(2,3)])
  define d2 where "d2 = (case m_userId md of
                           None \<Rightarrow> d1
                         | Some u \<Rightarrow>
                             if u = [] then d1
                             else snd (recordVideoCompletion (ledger_env menv) d1 u
                                         (m_taskId md) vid))"
  have "videos d2 = videos d1"
    by (simp add: d2_def recordVideoCompletion_frame split: option.split)
  then have v: "videos d2 = videos d0 @ [videoData menv pr md vid]"
    by (simp add: d1_def)
  have "completeVideoProcessing menv d0 files kv kt md =
          (Inr \<lparr>c_videoId = vid, c_videoUrl = videoUrl pr, c_thumbnailUrl = thumbnailUrl pr\<rparr>,
           d2, cleanupTempFiles menv [localVideoPath pr, localThumbnailPath pr] files1)"
    using assms(1) save by (simp add: completeVideoProcessing_def d2_def)
  with v videoData_fields [of menv pr md vid] show ?thesis by blast
qed

lemma both_served_run:
  "processKieVideoAndThumbnail tagging_down {} ''https://kie.example/v.mp4''
     ''https://kie.example/t.jpg'' task_1 =
   (Inr served_result,
    {''/tmp/kie-video-task-1-1735725600000.mp4'',
     ''/tmp/kie-thumbnail-task-1-1735725600000.jpg''})"
  by (simp add: processKieVideoAndThumbnail_def downloadVideo_def uploadToR2_def served_result_def
      tagging_down_def both_served_def thumbnail_404_def task_1_def Let_def insert_commute)

text \<open>After a failed upload and after a refused catalog insert both local files are gone.\<close>

lemma upload_failure_deletes_both_files:
  "completeVideoProcessing video_upload_down db_100 {} ''https://kie.example/v.mp4''
     ''https://kie.example/t.jpg'' task_1 =
   (Inl (UploadFailed ''videos/video-1735725600000-task-1.mp4''), db_100, {})"
  by (simp add: completeVideoProcessing_def processKieVideoAndThumbnail_def downloadVideo_def
      uploadToR2_def unlink_quietly_def video_upload_down_def both_served_def thumbnail_404_def
      task_1_def Let_def insert_commute)

lemma save_failure_deletes_both_files:
  "completeVideoProcessing catalog_down db_100 {} ''https://kie.example/v.mp4''
     ''https://kie.example/t.jpg'' task_1 =
   (Inl (SaveFailed ''permission denied''), db_100\<lparr>calls := [Insert_videos]\<rparr>, {})"
  by (simp add: completeVideoProcessing_def processKieVideoAndThumbnail_def downloadVideo_def
      uploadToR2_def saveVideoToDatabase_def cleanupTempFiles_def unlink_quietly_def
      catalog_down_def both_served_def thumbnail_404_def task_1_def db_100_def Let_def
      insert_commute)

section \<open>Spending with a sufficient balance\<close>

text \<open>
  C1 says that for a profile read with balance \<open>B\<close> and an amount \<open>A \<le> B\<close>, \<open>deductCredits\<close>
  returns \<open>{success: true, remainingCredits: B - A}\<close>, writes the credits to \<open>B - A\<close> and
  inserts a \<open>usage\<close> row with amount \<open>- A\<close> whose description contains \<open>Task: {taskId}\<close> when a
  task id is supplied. That holds when the store accepts the update and the insert and the
  task id is not empty: then the result is as said, the profile's credits are \<open>B - A\<close>, and
  exactly one row is appended to \<open>credit_transactions\<close>, of type \<open>usage\<close>, with amount \<open>- A\<close>,
  and with a description that contains \<open>Task: \<close> followed by the task id (a task id that is
  missing or empty leaves the description as given).
\<close>

theorem deductCredits_sufficient:
  assumes "client_throws env = None" and "select_reply env = SelectAnswers"
    and "user_profiles d userId = Some p" and "credits p = Some B" and "A \<le> B"
    and "\<not> update_fails env" and "\<not> insert_fails env"
    and "deductCredits env now d userId A descr taskId = (r, d')"
  shows "r = \<lparr>success = True, error = None, remainingCredits = Some (B - A)\<rparr> \<and>
         (\<exists>p'. user_profiles d' userId = Some p' \<and> credits p' = Some (B - A)) \<and>
         (\<exists>row. credit_transactions d' = credit_transactions d @ [row] \<and>
                user_id row = userId \<and> transaction_type row = Usage \<and> amount row = - A \<and>
                (case taskId of
                   None \<Rightarrow> description row = descr
                 | Some t \<Rightarrow> if t = [] then description row = descr
                            else sublist (''Task: '' @ t) (description row)))"
proof -
  have nlt: "\<not> num (credits p) < A"
    using assms(4,5) by simp
  note row = deduct_row_fields [of now userId A descr taskId]
  from deductCredits_ok [OF assms(1,2,3) nlt assms(6), of now descr taskId] assms(4,7,8)
  have r: "r = \<lparr>success = True, error = None, remainingCredits = Some (B - A)\<rparr>"
    and p: "user_profiles d' userId = Some (p\<lparr>credits := Some (B - A),
            total_credits_spent := Some (num (total_credits_spent p) + A),
            total_videos_created := Some (num (total_videos_created p) + 1)\<rparr>)"
    and t: "credit_transactions d' = credit_transactions d @ [deduct_row now userId A descr taskId]"
    by auto
  from p have "\<exists>p'. user_profiles d' userId = Some p' \<and> credits p' = Some (B - A)"
    by simp
  moreover have "\<exists>row. credit_transactions d' = credit_transactions d @ [row] \<and>
                user_id row = userId \<and> transaction_type row = Usage \<and> amount row = - A \<and>
                (case taskId of
                   None \<Rightarrow> description row = descr
                 | Some t \<Rightarrow> if t = [] then description row = descr
                            else sublist (''Task: '' @ t) (description row))"
    using t row deduct_row_description [of now userId A descr taskId] by blast
  ultimately show ?thesis using r by blast
qed

theorem deductCredits_sufficient_witness:
  "fst run_deduct_30 = \<lparr>success = True, error = None, remainingCredits = Some 70\<rparr> \<and>
   (\<exists>p'. user_profiles (snd run_deduct_30) ''u1'' = Some p' \<and> credits p' = Some 70) \<and>
   (\<exists>row. credit_transactions (snd run_deduct_30) = [row] \<and> user_id row = ''u1'' \<and>
          transaction_type row = Usage \<and> amount row = - 30 \<and>
          sublist ''Task: task-1'' (description row))"
proof -
  have run: "deductCredits all_well ''2025-01-01T10:00:00.000Z'' db_100 ''u1'' 30 ''video gen''
       (Some ''task-1'') = (fst run_deduct_30, snd run_deduct_30)"
    by (simp add: run_deduct_30_def)
  have le: "(30::int) \<le> 100" by simp
  from deductCredits_sufficient [OF all_well_simps(1,2) db_100_simps(1) profile_100_simps(1) le
      all_well_simps(3,4) run]
  show ?thesis by (simp add: db_100_simps)
qed

text \<open>
  A balance of 100 and an amount of 30. When the store refuses the update, the result is the
  failure \<open>Failed to update credits\<close> and nothing is written. When it refuses the insert, the
  result is success and no row exists. With the empty string as task id the row's
  description is the given one and has no \<open>Task: \<close> in it.
\<close>

theorem deductCredits_depends_on_the_store:
  "fst run_deduct_30_refused =
     \<lparr>success = False, error = Some ''Failed to update credits'', remainingCredits = None\<rparr> \<and>
   user_profiles (snd run_deduct_30_refused) = user_profiles db_100 \<and>
   credit_transactions (snd run_deduct_30_refused) = [] \<and>
   fst run_deduct_30_unlogged = \<lparr>success = True, error = None, remainingCredits = Some 70\<rparr> \<and>
   credit_transactions (snd run_deduct_30_unlogged) = [] \<and>
   fst run_deduct_30_empty_task = \<lparr>success = True, error = None, remainingCredits = Some 70\<rparr> \<and>
   map description (credit_transactions (snd run_deduct_30_empty_task)) = [''video gen''] \<and>
   \<not> sublist ''Task: '' ''video gen''"
proof -
  have eq: "run_deduct_30_refused =
      (\<lparr>success = False, error = Some ''Failed to update credits'', remainingCredits = None\<rparr>,
       db_100\<lparr>calls := [Select_user_profiles ''u1'', Update_user_profiles ''u1'']\<rparr>)"
    by (simp add: run_deduct_30_refused_def deductCredits_def select_profile_def
        update_profile_def deduct_failed_def update_down_def all_well_def db_100_def
        profile_100_def Let_def)
  have refused: "fst run_deduct_30_refused =
        \<lparr>success = False, error = Some ''Failed to update credits'', remainingCredits = None\<rparr>"
      "user_profiles (snd run_deduct_30_refused) = user_profiles db_100"
      "credit_transactions (snd run_deduct_30_refused) = []"
    by (simp_all add: eq db_100_simps)
  have le: "\<not> num (credits profile_100) < 30"
    by (simp add: profile_100_def)
  have unlogged: "fst run_deduct_30_unlogged =
        \<lparr>success = True, error = None, remainingCredits = Some 70\<rparr>"
      "credit_transactions (snd run_deduct_30_unlogged) = []"
    using deductCredits_ok [OF ledger_insert_down_simps(1,2) db_100_simps(1) le
        ledger_insert_down_simps(3)]
    by (simp_all add: run_deduct_30_unlogged_def ledger_insert_down_simps db_100_simps
        profile_100_simps)
  have empty: "fst run_deduct_30_empty_task =
        \<lparr>success = True, error = None, remainingCredits = Some 70\<rparr>"
      "map description (credit_transactions (snd run_deduct_30_empty_task)) = [''video gen'']"
    using deductCredits_ok [OF all_well_simps(1,2) db_100_simps(1) le all_well_simps(3)]
    by (simp_all add: run_deduct_30_empty_task_def all_well_simps db_100_simps
        profile_100_simps deduct_row_def task_description_plain)
  have "\<not> sublist ''Task: '' ''video gen''"
    by (simp add: sublist_Cons_right)
  with refused unlogged empty show ?thesis
    by simp
qed

section \<open>Spending with an insufficient balance\<close>

text \<open>
  C2. A user whose profile is read with balance \<open>B\<close> tries to spend \<open>A > B\<close>. Then
  \<open>deductCredits\<close> returns the failure \<open>Insufficient credits\<close> as a value, and the only call
  issued is the read: no profile and no transaction row has changed.
\<close>

theorem deductCredits_insufficient:
  assumes "client_throws env = None" and "select_reply env = SelectAnswers"
    and "user_profiles d userId = Some p" and "credits p = Some B" and "B < A"
    and "deductCredits env now d userId A descr taskId = (r, d')"
  shows "r = \<lparr>success = False, error = Some ''Insufficient credits'', remainingCredits = None\<rparr> \<and>
         user_profiles d' = user_profiles d \<and>
         credit_transactions d' = credit_transactions d \<and>
         videos d' = videos d \<and>
         calls d' = calls d @ [Select_user_profiles userId]"
  using assms
  by (auto simp: deductCredits_def select_profile_row deduct_failed_def)

theorem deductCredits_insufficient_witness:
  "fst run_deduct_130 =
     \<lparr>success = False, error = Some ''Insufficient credits'', remainingCredits = None\<rparr> \<and>
   user_profiles (snd run_deduct_130) = user_profiles db_100 \<and>
   credit_transactions (snd run_deduct_130) = [] \<and>
   calls (snd run_deduct_130) = [Select_user_profiles ''u1'']"
proof -
  have run: "deductCredits all_well ''2025-01-01T10:00:00.000Z'' db_100 ''u1'' 130 ''video gen''
       (Some ''task-1'') = (fst run_deduct_130, snd run_deduct_130)"
    by (simp add: run_deduct_130_def)
  have lt: "(100::int) < 130" by simp
  from deductCredits_insufficient [OF all_well_simps(1,2) db_100_simps(1) profile_100_simps(1) lt
      run]
  show ?thesis by (simp add: db_100_simps)
qed

section \<open>The ledger row is written after the balance, best effort\<close>

text \<open>
  C3. In \<open>addCredits\<close> and in \<open>deductCredits\<close> the update of the balance is issued before the
  insert into \<open>credit_transactions\<close>. When that insert fails, no row is written, the
  operation still reports success, and the balance stays updated: a following
  \<open>getUserCredits\<close> reads \<open>B + A\<close> after \<open>addCredits\<close> of \<open>A\<close> as a bonus, and \<open>B - A'\<close> after
  \<open>deductCredits\<close> of \<open>A'\<close>.
\<close>

theorem ledger_insert_is_best_effort:
  assumes "client_throws env = None" and "select_reply env = SelectAnswers"
    and "user_profiles d userId = Some p" and "credits p = Some B"
    and "\<not> update_fails env" and "insert_fails env"
    and "client_throws env' = None" and "select_reply env' = SelectAnswers"
    and "addCredits env now d userId A descr Bonus metadata = (r1, d1)"
    and "A' \<le> B"
    and "deductCredits env now d userId A' descr' taskId = (r2, d2)"
  shows "r1 = \<lparr>success = True, error = None, newCredits = Some (B + A)\<rparr> \<and>
         calls d1 = calls d @ [Select_user_profiles userId, Update_user_profiles userId,
                               Insert_credit_transactions] \<and>
         credit_transactions d1 = credit_transactions d \<and>
         fst (getUserCredits env' d1 userId) = \<lparr>uc_credits = B + A, uc_error = None\<rparr> \<and>
         r2 = \<lparr>success = True, error = None, remainingCredits = Some (B - A')\<rparr> \<and>
         calls d2 = calls d @ [Select_user_profiles userId, Update_user_profiles userId,
                               Insert_credit_transactions] \<and>
         credit_transactions d2 = credit_transactions d \<and>
         fst (getUserCredits env' d2 userId) = \<lparr>uc_credits = B - A', uc_error = None\<rparr>"
proof -
  from addCredits_ok [OF assms(1,2,3,5), of now A descr Bonus metadata] assms(4,6,9)
  have r1: "r1 = \<lparr>success = True, error = None, newCredits = Some (B + A)\<rparr>"
    and d1: "d1 = d\<lparr>calls := calls d @ [Select_user_profiles userId, Update_user_profiles userId,
                            Insert_credit_transactions],
       user_profiles := (user_profiles d)(userId \<mapsto>
          p\<lparr>credits := Some (B + A), updated_at := Some now\<rparr>),
       credit_transactions := credit_transactions d\<rparr>"
    by simp_all
  have nlt: "\<not> num (credits p) < A'"
    using assms(4,10) by simp
  from deductCredits_ok [OF assms(1,2,3) nlt assms(5), of now descr' taskId] assms(4,6,11)
  have r2: "r2 = \<lparr>success = True, error = None, remainingCredits = Some (B - A')\<rparr>"
    and d2: "d2 = d\<lparr>calls := calls d @ [Select_user_profiles userId, Update_user_profiles userId,
                            Insert_credit_transactions],
       user_profiles := (user_profiles d)(userId \<mapsto>
          p\<lparr>credits := Some (B - A'),
            total_credits_spent := Some (num (total_credits_spent p) + A'),
            total_videos_created := Some (num (total_videos_created p) + 1)\<rparr>),
       credit_transactions := credit_transactions d\<rparr>"
    by simp_all
  have g1: "fst (getUserCredits env' d1 userId) = \<lparr>uc_credits = B + A, uc_error = None\<rparr>"
    using getUserCredits_reads [OF assms(7,8), of d1 userId] d1 by simp
  have g2: "fst (getUserCredits env' d2 userId) = \<lparr>uc_credits = B - A', uc_error = None\<rparr>"
    using getUserCredits_reads [OF assms(7,8), of d2 userId] d2 by simp
  from r1 r2 g1 g2 show ?thesis
    by (simp add: d1 d2)
qed

theorem ledger_insert_is_best_effort_witness:
  "fst run_add_5 = \<lparr>success = True, error = None, newCredits = Some 105\<rparr> \<and>
   credit_transactions (snd run_add_5) = [] \<and>
   fst (getUserCredits all_well (snd run_add_5) ''u1'') = \<lparr>uc_credits = 105, uc_error = None\<rparr> \<and>
   fst run_deduct_30_unlogged = \<lparr>success = True, error = None, remainingCredits = Some 70\<rparr> \<and>
   calls (snd run_deduct_30_unlogged) =
     [Select_user_profiles ''u1'', Update_user_profiles ''u1'', Insert_credit_transactions] \<and>
   credit_transactions (snd run_deduct_30_unlogged) = [] \<and>
   fst (getUserCredits all_well (snd run_deduct_30_unlogged) ''u1'') =
     \<lparr>uc_credits = 70, uc_error = None\<rparr>"
proof -
  have run1: "addCredits ledger_insert_down ''2025-01-01T10:00:00.000Z'' db_100 ''u1'' 5
       ''daily check-in'' Bonus None = (fst run_add_5, snd run_add_5)"
    by (simp add: run_add_5_def)
  have run2: "deductCredits ledger_insert_down ''2025-01-01T10:00:00.000Z'' db_100 ''u1'' 30
       ''video gen'' (Some ''task-1'') = (fst run_deduct_30_unlogged, snd run_deduct_30_unlogged)"
    by (simp add: run_deduct_30_unlogged_def)
  have le: "(30::int) \<le> 100" by simp
  from ledger_insert_is_best_effort [OF ledger_insert_down_simps(1,2) db_100_simps(1)
      profile_100_simps(1) ledger_insert_down_simps(3,4) all_well_simps(1,2) run1 le run2]
  show ?thesis by (simp add: db_100_simps)
qed

section \<open>Temp files after a failed download\<close>

text \<open>
  C4 says that whenever \<open>processKieVideoAndThumbnail\<close> or \<open>completeVideoProcessing\<close> fails,
  every local temp file that exists is deleted before the error reaches the caller, also the
  file of a download that completed while the other download failed. Here the video is
  downloaded and the thumbnail's URL answers 404: the pipeline fails with that status, and
  both files are still on disk, the complete video and the empty thumbnail file.
\<close>

theorem paired_download_failure_leaves_files:
  "completeVideoProcessing thumbnail_404 db_100 {} ''https://kie.example/v.mp4''
     ''https://kie.example/t.jpg'' task_1 =
   (Inl (HttpStatus 404), db_100,
    {''/tmp/kie-video-task-1-1735725600000.mp4'',
     ''/tmp/kie-thumbnail-task-1-1735725600000.jpg''})"
  by (simp add: completeVideoProcessing_def processKieVideoAndThumbnail_def downloadVideo_def
      thumbnail_404_def task_1_def Let_def insert_commute)

section \<open>Which transactions the completion tags\<close>




section \<open>Refund, then spend the same amount\<close>

text \<open>
  C6 says that refund and deduct of the same amount restore the balance, with
  \<open>total_credits_spent\<close> restored up to the clamp, and that \<open>refundCredits\<close> always records
  a row of type \<open>refund\<close> with a positive amount. The first part holds: a user has balance
  \<open>B\<close>; after a successful \<open>refundCredits\<close> of \<open>A\<close> followed by a successful \<open>deductCredits\<close>
  of \<open>A\<close> the balance is \<open>B\<close> again, while \<open>total_credits_spent\<close> is \<open>max 0 (S - A) + A\<close> for
  its old value \<open>S\<close>. Of the row this holds: when the store accepts the insert, the refund
  appends one row, of type \<open>refund\<close> and with the amount \<open>A\<close> as it was passed, not negated;
  when the store refuses the insert, it appends none.
\<close>

theorem refund_then_deduct_round_trip:
  assumes "user_profiles d userId = Some p" and "credits p = Some B"
    and "refundCredits env1 now1 d userId A descr1 taskId1 videoId = (r1, d1)" and "success r1"
    and "deductCredits env2 now2 d1 userId A descr2 taskId2 = (r2, d2)" and "success r2"
  shows "(\<exists>p2. user_profiles d2 userId = Some p2 \<and> credits p2 = Some B \<and>
               total_credits_spent p2 = Some (max 0 (num (total_credits_spent p) - A) + A)) \<and>
         (\<exists>row. transaction_type row = Refund \<and> amount row = A \<and> user_id row = userId \<and>
                credit_transactions d1 =
                  credit_transactions d @ (if insert_fails env1 then [] else [row]))"
proof -
  from refundCredits_success [OF assms(3,4)]
  have env1: "client_throws env1 = None" "select_reply env1 = SelectAnswers"
    "\<not> update_fails env1"
    by blast+
  from refundCredits_ok [OF env1(1,2) assms(1) env1(3), of now1 A descr1 taskId1 videoId]
    assms(2,3)
  have d1: "d1 = d\<lparr>calls := calls d @ [Select_user_profiles userId, Update_user_profiles userId,
                            Insert_credit_transactions],
       user_profiles := (user_profiles d)(userId \<mapsto>
          p\<lparr>credits := Some (B + A),
            total_credits_spent := Some (max 0 (num (total_credits_spent p) - A))\<rparr>),
       credit_transactions := credit_transactions d @
          (if insert_fails env1 then [] else [refund_row now1 userId A descr1 taskId1 videoId])\<rparr>"
    by simp
  define p1 where "p1 = p\<lparr>credits := Some (B + A),
            total_credits_spent := Some (max 0 (num (total_credits_spent p) - A))\<rparr>"
  have p1: "user_profiles d1 userId = Some p1"
    by (simp add: d1 p1_def)
  from deductCredits_success [OF assms(5,6)] p1
  have env2: "client_throws env2 = None" "select_reply env2 = SelectAnswers"
    "\<not> update_fails env2" and enough: "\<not> num (credits p1) < A"
    by auto
  from deductCredits_ok [OF env2(1,2) p1 enough env2(3), of now2 descr2 taskId2] assms(5)
  have "user_profiles d2 userId = Some (p1\<lparr>credits := Some (num (credits p1) - A),
            total_credits_spent := Some (num (total_credits_spent p1) + A),
            total_videos_created := Some (num (total_videos_created p1) + 1)\<rparr>)"
    by auto
  then have first: "\<exists>p2. user_profiles d2 userId = Some p2 \<and> credits p2 = Some B \<and>
               total_credits_spent p2 = Some (max 0 (num (total_credits_spent p) - A) + A)"
    by (simp add: p1_def)
  have "transaction_type (refund_row now1 userId A descr1 taskId1 videoId) = Refund"
    "amount (refund_row now1 userId A descr1 taskId1 videoId) = A"
    "user_id (refund_row now1 userId A descr1 taskId1 videoId) = userId"
    by (simp_all add: refund_row_def)
  moreover have "credit_transactions d1 = credit_transactions d @
      (if insert_fails env1 then [] else [refund_row now1 userId A descr1 taskId1 videoId])"
    by (simp add: d1)
  ultimately have second: "\<exists>row. transaction_type row = Refund \<and> amount row = A \<and>
                user_id row = userId \<and>
                credit_transactions d1 =
                  credit_transactions d @ (if insert_fails env1 then [] else [row])"
    by blast
  from first second show ?thesis by blast
qed

theorem refund_then_deduct_round_trip_witness:
  "(\<exists>p2. user_profiles (snd run_refund_then_deduct) ''u1'' = Some p2 \<and> credits p2 = Some 100 \<and>
          total_credits_spent p2 = Some 30) \<and>
   (\<exists>row. transaction_type row = Refund \<and> amount row = 30 \<and> user_id row = ''u1'' \<and>
          credit_transactions (snd run_refund_30) = [row])"
proof -
  have run1: "refundCredits all_well ''2025-01-01T10:00:00.000Z'' db_100 ''u1'' 30
       ''generation failed'' (Some ''task-1'') None = (fst run_refund_30, snd run_refund_30)"
    by (simp add: run_refund_30_def)
  have run2: "deductCredits all_well ''2025-01-01T11:00:00.000Z'' (snd run_refund_30) ''u1'' 30
       ''video gen'' (Some ''task-2'') = (fst run_refund_then_deduct, snd run_refund_then_deduct)"
    by (simp add: run_refund_then_deduct_def)
  have ok1: "success (fst run_refund_30)"
    using refundCredits_ok [OF all_well_simps(1,2) db_100_simps(1) all_well_simps(3)]
    by (simp add: run_refund_30_def)
  have prof: "user_profiles (snd run_refund_30) ''u1'' =
      Some (profile_100\<lparr>credits := Some 130, total_credits_spent := Some 0\<rparr>)"
    using refundCredits_ok [OF all_well_simps(1,2) db_100_simps(1) all_well_simps(3)]
    by (simp add: run_refund_30_def profile_100_simps)
  have ok2: "success (fst run_refund_then_deduct)"
    using deductCredits_ok [OF all_well_simps(1,2) prof _ all_well_simps(3)]
    by (simp add: run_refund_then_deduct_def)
  from refund_then_deduct_round_trip [OF db_100_simps(1) profile_100_simps(1) run1 ok1 run2 ok2]
  show ?thesis by (simp add: db_100_simps profile_100_simps all_well_simps)
qed

text \<open>
  A refund of 30 whose insert the store refuses succeeds and records no row; a refund of
  \<open>- 50\<close> succeeds and records the amount \<open>- 50\<close>.
\<close>

theorem refundCredits_row_is_best_effort_and_unsigned:
  "success (fst run_refund_30_unlogged) \<and>
   credit_transactions (snd run_refund_30_unlogged) = [] \<and>
   success (fst run_refund_minus_50) \<and>
   map transaction_type (credit_transactions (snd run_refund_minus_50)) = [Refund] \<and>
   map amount (credit_transactions (snd run_refund_minus_50)) = [- 50]"
proof -
  have unlogged: "success (fst run_refund_30_unlogged)"
      "credit_transactions (snd run_refund_30_unlogged) = []"
    using refundCredits_ok [OF ledger_insert_down_simps(1,2) db_100_simps(1)
        ledger_insert_down_simps(3)]
    by (simp_all add: run_refund_30_unlogged_def ledger_insert_down_simps db_100_simps)
  have minus: "success (fst run_refund_minus_50)"
      "map transaction_type (credit_transactions (snd run_refund_minus_50)) = [Refund]"
      "map amount (credit_transactions (snd run_refund_minus_50)) = [- 50]"
    using refundCredits_ok [OF all_well_simps(1,2) db_100_simps(1) all_well_simps(3)]
    by (simp_all add: run_refund_minus_50_def all_well_simps db_100_simps refund_row_def)
  from unlogged minus show ?thesis by simp
qed

section \<open>The payment URL of a checkout\<close>




section \<open>Tagging is best effort\<close>

text \<open>
  C8. When no row of \<open>credit_transactions\<close> passes the filters of \<open>recordVideoCompletion\<close>, it
  reports success and leaves every row as it was. And once the two files are published and
  the catalog insert has returned an id, \<open>completeVideoProcessing\<close> returns that id with the
  two public URLs and the catalog row stays in \<open>videos\<close>, whatever the tagging does: match
  nothing, be refused by the store, or never reach it.
\<close>

theorem tagging_is_best_effort:
  "(client_throws env = None \<and> \<not> update_fails env \<and>
    (\<forall>row\<in>set (credit_transactions d). \<not> completion_filter userId taskId row)
      \<longrightarrow> recordVideoCompletion env d userId taskId videoId =
            (\<lparr>success = True, error = None\<rparr>,
             d\<lparr>calls := calls d @ [Update_credit_transactions]\<rparr>)) \<and>
   (processKieVideoAndThumbnail menv files kv kt md = (Inr pr, files1) \<and>
    create_client_throws menv = None \<and> videos_insert menv = InsertReturns vid
      \<longrightarrow> (\<exists>d' files'. completeVideoProcessing menv d0 files kv kt md =
              (Inr \<lparr>c_videoId = vid, c_videoUrl = videoUrl pr,
                    c_thumbnailUrl = thumbnailUrl pr\<rparr>, d', files') \<and>
              (\<exists>row. videos d' = videos d0 @ [row] \<and> v_id row = vid \<and>
                     v_task_id row = m_taskId md)))"
  using recordVideoCompletion_no_match [of env d userId taskId videoId]
    completeVideoProcessing_saved [of menv files kv kt md pr files1 vid d0]
  by blast

theorem tagging_is_best_effort_witness:
  "recordVideoCompletion all_well db_other_task ''u1'' ''task-1'' ''vid-1'' =
     (\<lparr>success = True, error = None\<rparr>, db_other_task\<lparr>calls := [Update_credit_transactions]\<rparr>) \<and>
   (\<exists>d' files'.
      completeVideoProcessing tagging_down db_other_task {} ''https://kie.example/v.mp4''
        ''https://kie.example/t.jpg'' task_1 =
      (Inr \<lparr>c_videoId = ''vid-1'',
            c_videoUrl = ''https://cdn.example/videos/video-1735725600000-task-1.mp4'',
            c_thumbnailUrl = ''https://cdn.example/thumbnails/thumb-1735725600000-task-1.jpg''\<rparr>,
       d', files') \<and>
      (\<exists>row. videos d' = [row] \<and> v_id row = ''vid-1'' \<and> v_task_id row = ''task-1''))"
proof -
  have none: "\<forall>row\<in>set (credit_transactions db_other_task).
                \<not> completion_filter ''u1'' ''task-1'' row"
    by (simp add: db_other_task_def other_row_differs)
  have env: "create_client_throws tagging_down = None"
    "videos_insert tagging_down = InsertReturns ''vid-1''"
    by (simp_all add: tagging_down_def both_served_def thumbnail_404_def)
  have db: "calls db_other_task = []" "videos db_other_task = []"
    by (simp_all add: db_other_task_def)
  have urls: "videoUrl served_result = ''https://cdn.example/videos/video-1735725600000-task-1.mp4''"
    "thumbnailUrl served_result = ''https://cdn.example/thumbnails/thumb-1735725600000-task-1.jpg''"
    "m_taskId task_1 = ''task-1''"
    by (simp_all add: served_result_def task_1_def)
  from tagging_is_best_effort [where env = all_well and d = db_other_task and userId = "''u1''"
      and taskId = "''task-1''" and videoId = "''vid-1''" and menv = tagging_down
      and files = "{}" and kv = "''https://kie.example/v.mp4''"
      and kt = "''https://kie.example/t.jpg''" and md = task_1 and ?d0.0 = db_other_task
      and vid = "''vid-1''" and pr = served_result
      and ?files1.0 = "{''/tmp/kie-video-task-1-1735725600000.mp4'',
                     ''/tmp/kie-thumbnail-task-1-1735725600000.jpg''}"]
    none all_well_simps(1,3) both_served_run env
  show ?thesis by (simp add: db urls)
qed

section \<open>Reading the balance never fails\<close>

text \<open>
  C9. \<open>getUserCredits\<close> always returns a value. It changes no table, and issues at most the
  one read. When the client cannot be created, the read is answered with an error or with
  nothing, or the profile is missing, the credits returned are \<open>0\<close> and an error text comes
  with them.
\<close>

theorem getUserCredits_never_fails:
  assumes "getUserCredits env d userId = (r, d')"
  shows "user_profiles d' = user_profiles d \<and> credit_transactions d' = credit_transactions d \<and>
         videos d' = videos d \<and>
         (calls d' = calls d \<or> calls d' = calls d @ [Select_user_profiles userId]) \<and>
         (client_throws env \<noteq> None \<or> select_reply env \<noteq> SelectAnswers \<or>
          user_profiles d userId = None
            \<longrightarrow> uc_credits r = 0 \<and> uc_error r \<noteq> None)"
  using assms
  by (auto simp: getUserCredits_def select_profile_def Let_def
      split: option.splits select_reply.splits single.splits)

theorem getUserCredits_never_fails_witness:
  "user_profiles (snd (getUserCredits select_down db_100 ''u1'')) = user_profiles db_100 \<and>
   credit_transactions (snd (getUserCredits select_down db_100 ''u1'')) = [] \<and>
   uc_credits (fst (getUserCredits select_down db_100 ''u1'')) = 0 \<and>
   uc_error (fst (getUserCredits select_down db_100 ''u1'')) \<noteq> None"
proof -
  have run: "getUserCredits select_down db_100 ''u1'' =
      (fst (getUserCredits select_down db_100 ''u1''), snd (getUserCredits select_down db_100 ''u1''))"
    by simp
  have down: "select_reply select_down \<noteq> SelectAnswers"
    by (simp add: select_down_def all_well_def)
  from getUserCredits_never_fails [OF run] down
  show ?thesis by (simp add: db_100_simps)
qed

section \<open>What a successful spend changes in the profile\<close>

text \<open>
  C10. After a successful \<open>deductCredits\<close> of \<open>A\<close> the user's profile is the old one with
  three fields written: \<open>credits\<close> lowered by \<open>A\<close>, \<open>total_credits_spent\<close> raised by \<open>A\<close> and
  \<open>total_videos_created\<close> raised by one, a missing value counting as \<open>0\<close>. Every other field
  of that profile and every other profile is as before.
\<close>

theorem deductCredits_changes_three_fields:
  assumes "deductCredits env now d userId A descr taskId = (r, d')" and "success r"
  shows "\<exists>p. user_profiles d userId = Some p \<and>
           user_profiles d' = (user_profiles d)(userId \<mapsto>
             p\<lparr>credits := Some (num (credits p) - A),
               total_credits_spent := Some (num (total_credits_spent p) + A),
               total_videos_created := Some (num (total_videos_created p) + 1)\<rparr>)"
proof -
  from deductCredits_success [OF assms]
  obtain p where env: "client_throws env = None" "select_reply env = SelectAnswers"
      "\<not> update_fails env"
    and p: "user_profiles d userId = Some p" "\<not> num (credits p) < A"
    by blast
  from deductCredits_ok [OF env(1,2) p env(3), of now descr taskId] assms(1)
  have "user_profiles d' = (user_profiles d)(userId \<mapsto>
             p\<lparr>credits := Some (num (credits p) - A),
               total_credits_spent := Some (num (total_credits_spent p) + A),
               total_videos_created := Some (num (total_videos_created p) + 1)\<rparr>)"
    by auto
  with p(1) show ?thesis by blast
qed

theorem deductCredits_changes_three_fields_witness:
  "user_profiles (snd run_deduct_30) =
     (user_profiles db_100)(''u1'' \<mapsto>
        profile_100\<lparr>credits := Some 70, total_credits_spent := Some 40,
                    total_videos_created := Some 1\<rparr>)"
proof -
  have run: "deductCredits all_well ''2025-01-01T10:00:00.000Z'' db_100 ''u1'' 30 ''video gen''
       (Some ''task-1'') = (fst run_deduct_30, snd run_deduct_30)"
    by (simp add: run_deduct_30_def)
  have ok: "success (fst run_deduct_30)"
    using deductCredits_ok [OF all_well_simps(1,2) db_100_simps(1) _ all_well_simps(3)]
    by (simp add: run_deduct_30_def profile_100_simps)
  from deductCredits_changes_three_fields [OF run ok]
  show ?thesis by (simp add: db_100_simps profile_100_simps)
qed

end
